theory Spec2Isabelle
  imports Main "HOL-Library.Word"
begin

section \<open>Error values\<close>

text \<open>
  The facade handles three kinds of error values: errors produced outside the package
  (by the underlying stack, by the standard library), the wrapping errors it builds
  with \<^verbatim>\<open>fmt.Errorf("%s: %w", endpoint, err)\<close>, and its own aggregate
  \<^verbatim>\<open>*ErrDial\<close>. The last two are pointers, so each carries the address
  it was allocated at: Go's \<^verbatim>\<open>==\<close> on two error values is then equality
  of the terms below. A \<^verbatim>\<open>nil\<close> error is \<open>None\<close>; the slice
  \<^verbatim>\<open>Errors []error\<close> may hold nil entries.
\<close>

datatype error =
    Foreign nat
  | WrapError nat string error
  | ErrDial nat "error option list"

text \<open>
  \<^verbatim>\<open>errors.Is\<close> of the standard library, its loop \<^verbatim>\<open>is\<close>, and
  the method \<^verbatim>\<open>(*ErrDial).Is\<close> of the package (the receiver enters through
  its field \<^verbatim>\<open>Errors\<close> only). The three are mutually recursive, as in Go.
  A foreign error may have an \<^verbatim>\<open>Is\<close> method or an
  \<^verbatim>\<open>Unwrap\<close> chain of its own: what these answer is the parameter
  \<open>fis\<close>. \<^verbatim>\<open>*ErrDial\<close> has no \<^verbatim>\<open>Unwrap\<close> method.
\<close>

fun errors_Is :: "(nat \<Rightarrow> error \<Rightarrow> bool) \<Rightarrow> error option \<Rightarrow> error option \<Rightarrow> bool"
and errors_is :: "(nat \<Rightarrow> error \<Rightarrow> bool) \<Rightarrow> error \<Rightarrow> error \<Rightarrow> bool"
and ErrDial_Is :: "(nat \<Rightarrow> error \<Rightarrow> bool) \<Rightarrow> error option list \<Rightarrow> error option \<Rightarrow> bool"
where
  "errors_Is fis None target = (None = target)"
| "errors_Is fis (Some err) None = False"
| "errors_Is fis (Some err) (Some target) = errors_is fis err target"
| "errors_is fis (Foreign x) target =
     (if Foreign x = target then True else fis x target)"
| "errors_is fis (WrapError a s err) target =
     (if WrapError a s err = target then True else errors_is fis err target)"
| "errors_is fis (ErrDial a es) target =
     (if ErrDial a es = target then True
      else if ErrDial_Is fis es (Some target) then True
      else False)"
| "ErrDial_Is fis [] target = False"
| "ErrDial_Is fis (child # rest) target =
     (if errors_Is fis child target then True else ErrDial_Is fis rest target)"

text \<open>A foreign error without methods of its own, such as a sentinel made by \<^verbatim>\<open>errors.New\<close>.\<close>

definition plain_error :: "nat \<Rightarrow> error \<Rightarrow> bool" where
  "plain_error x target = False"

section \<open>Time, contexts, connections\<close>

text \<open>
  \<^verbatim>\<open>time.Time\<close> and \<^verbatim>\<open>time.Duration\<close> count nanoseconds; the zero value
  \<^verbatim>\<open>time.Time{}\<close> is \<open>0\<close>. Ten seconds are far from the range of an
  \<^verbatim>\<open>int64\<close>, so no wrap-around is written out.
\<close>

type_synonym Time = int
type_synonym Duration = int


definition zero_Time :: Time where
  "zero_Time = 0"

text \<open>
  A \<^verbatim>\<open>context.Context\<close> as the facade sees it: what \<^verbatim>\<open>Deadline()\<close>
  returns, and what \<^verbatim>\<open>Err()\<close> returns when the call starts (non-nil when the
  context is already cancelled).
\<close>

record Context =
  Deadline :: "Time option"
  Err :: "error option"

definition context_DeadlineExceeded :: error where
  "context_DeadlineExceeded = Foreign 1"

definition context_Canceled :: error where
  "context_Canceled = Foreign 2"



record tls_Config =
  RootCAs :: "nat option"
  NextProtos :: "string list"
  ServerName :: string

text \<open>
  A \<^verbatim>\<open>net.Conn\<close>: a connection of the underlying stack (a handle), or the
  \<^verbatim>\<open>*tls.Conn\<close> that \<^verbatim>\<open>tls.Client\<close> or \<^verbatim>\<open>tls.Server\<close>
  builds around a connection (possibly nil) and a configuration (possibly nil).
\<close>

datatype netconn =
    StackConn nat
  | tls_Client "netconn option" "tls_Config option"
  | tls_Server "netconn option" "tls_Config option"

record TCPAddr =
  IP :: "8 word list"
  Port :: int
  Zone :: string

section \<open>The world: stack state and observable calls\<close>

text \<open>
  Every call that leaves the facade is recorded with its arguments and, where it has
  any, its results. The trace is what a claim about "no call is made" or "closed
  before returning" speaks of.
\<close>

datatype select_case =
    case_ctx_Done error
  | case_errch "error option"

datatype event =
    Stack_GetaddrinfoLookupANY Context string "string list" string "error option"
  | Stack_DialContext Context string string "netconn option" "error option"
  | Stack_DefaultCertPool "nat option"
  | Stack_ListenTCP string "TCPAddr option" "nat option" "error option"
  | Listener_Accept nat "netconn option" "error option"
  | Conn_SetDeadline netconn Time
  | Go_HandshakeContext Context netconn
  | Select select_case
  | Conn_HandshakeContext Context netconn "error option"
  | Conn_Close netconn
  | Context_cancel Context

record 's world =
  state :: 's
  trace :: "event list"
  next_ptr :: nat

definition emit :: "event \<Rightarrow> 's world \<Rightarrow> 's world" where
  "emit ev w = w\<lparr>trace := trace w @ [ev]\<rparr>"

text \<open>Allocation of a pointer-typed error: the next free address.\<close>

definition new_ptr :: "'s world \<Rightarrow> nat \<times> 's world" where
  "new_ptr w = (next_ptr w, w\<lparr>next_ptr := Suc (next_ptr w)\<rparr>)"

text \<open>
  The interface \<^verbatim>\<open>UnderlyingNetwork\<close> is declared outside the files at hand;
  the code at hand calls the four methods below. Each is a function of the stack's state
  \<open>'s\<close>, which it may change. Go returns a pair (value, error) and the facade tests
  the error only, so the pair is kept as it is.
\<close>

record 's UnderlyingNetwork =
  DefaultCertPool :: "'s \<Rightarrow> nat option \<times> 's"
  DialContext :: "'s \<Rightarrow> Context \<Rightarrow> string \<Rightarrow> string \<Rightarrow> (netconn option \<times> error option) \<times> 's"
  GetaddrinfoLookupANY :: "'s \<Rightarrow> Context \<Rightarrow> string \<Rightarrow> (string list \<times> string \<times> error option) \<times> 's"
  ListenTCP :: "'s \<Rightarrow> string \<Rightarrow> TCPAddr option \<Rightarrow> (nat option \<times> error option) \<times> 's"

record 's Net =
  Stack :: "'s UnderlyingNetwork"

text \<open>
  What the Go standard library and the run-time system contribute:
  \<^item> \<^verbatim>\<open>net.SplitHostPort\<close>, \<^verbatim>\<open>net.ParseIP\<close> (nil is \<open>None\<close>) and
    \<^verbatim>\<open>net.JoinHostPort\<close>;
  \<^item> \<^verbatim>\<open>(*tls.Conn).HandshakeContext\<close>, called synchronously;
  \<^item> the \<^verbatim>\<open>select\<close> of \<^verbatim>\<open>tlsHandshake\<close>: which case fires once the
    handshake runs in its goroutine, with the value received. After
    \<^verbatim>\<open>Done\<close> is closed, \<^verbatim>\<open>ctx.Err()\<close> is non-nil by the contract of
    \<^verbatim>\<open>context.Context\<close>;
  \<^item> \<^verbatim>\<open>Accept\<close> of a listener of the stack, and the clock.
\<close>

record 's runtime =
  net_SplitHostPort :: "string \<Rightarrow> string \<times> string \<times> error option"
  net_ParseIP :: "string \<Rightarrow> 8 word list option"
  net_JoinHostPort :: "string \<Rightarrow> string \<Rightarrow> string"
  tls_HandshakeContext :: "'s \<Rightarrow> Context \<Rightarrow> netconn \<Rightarrow> error option \<times> 's"
  select_ctx_Done_errch :: "'s \<Rightarrow> Context \<Rightarrow> netconn \<Rightarrow> select_case \<times> 's"
  listener_Accept :: "'s \<Rightarrow> nat \<Rightarrow> (netconn option \<times> error option) \<times> 's"
  time_Now :: "'s \<Rightarrow> Time"

text \<open>A call either returns or panics (a method called on a nil interface value).\<close>

datatype 'a exec = Return 'a | Panic

section \<open>The facade\<close>

text \<open>\<^verbatim>\<open>Net.LookupHost\<close>: one call of the stack's resolver; the CNAME is dropped.\<close>

definition Net_LookupHost ::
  "'s Net \<Rightarrow> 's world \<Rightarrow> Context \<Rightarrow> string \<Rightarrow> (string list \<times> error option) \<times> 's world" where
  "Net_LookupHost n w ctx domain =
     (case GetaddrinfoLookupANY (Stack n) (state w) ctx domain of
        ((addrs, cname, err), s') \<Rightarrow>
          ((addrs, err),
           emit (Stack_GetaddrinfoLookupANY ctx domain addrs cname err) (w\<lparr>state := s'\<rparr>)))"

text \<open>
  The loop of \<^verbatim>\<open>Net.DialContext\<close> over the addresses, with the aggregate
  \<^verbatim>\<open>errlist\<close> (its address \<open>a\<close>, its field \<open>errs\<close>) built so far; running
  out of addresses is the final \<^verbatim>\<open>return nil, errlist\<close>.
\<close>

fun Net_DialContext_loop ::
  "'s runtime \<Rightarrow> 's Net \<Rightarrow> Context \<Rightarrow> string \<Rightarrow> string \<Rightarrow> string list \<Rightarrow> nat \<Rightarrow> error option list
     \<Rightarrow> 's world \<Rightarrow> (netconn option \<times> error option) \<times> 's world" where
  "Net_DialContext_loop rt n ctx network port [] a errs w = ((None, Some (ErrDial a errs)), w)"
| "Net_DialContext_loop rt n ctx network port (ip # rest) a errs w =
     (let endpoint = net_JoinHostPort rt ip port in
      case DialContext (Stack n) (state w) ctx network endpoint of
        ((conn, err), s') \<Rightarrow>
          (let w1 = emit (Stack_DialContext ctx network endpoint conn err) (w\<lparr>state := s'\<rparr>) in
           case err of
             Some e \<Rightarrow>
               (case new_ptr w1 of
                  (p, w2) \<Rightarrow>
                    Net_DialContext_loop rt n ctx network port rest a
                      (errs @ [Some (WrapError p endpoint e)]) w2)
           | None \<Rightarrow> ((conn, None), w1)))"

definition Net_DialContext ::
  "'s runtime \<Rightarrow> 's Net \<Rightarrow> 's world \<Rightarrow> Context \<Rightarrow> string \<Rightarrow> string
     \<Rightarrow> (netconn option \<times> error option) \<times> 's world" where
  "Net_DialContext rt n w ctx network address =
     (case net_SplitHostPort rt address of
        (domain, port, Some err) \<Rightarrow> ((None, Some err), w)
      | (domain, port, None) \<Rightarrow>
          (case net_ParseIP rt domain of
             Some v \<Rightarrow>
               (case new_ptr w of
                  (a, w2) \<Rightarrow> Net_DialContext_loop rt n ctx network port [domain] a [] w2)
           | None \<Rightarrow>
               (case Net_LookupHost n w ctx domain of
                  ((addresses, Some err), w1) \<Rightarrow> ((None, Some err), w1)
                | ((addresses, None), w1) \<Rightarrow>
                    (case new_ptr w1 of
                       (a, w2) \<Rightarrow>
                         Net_DialContext_loop rt n ctx network port addresses a [] w2))))"

text \<open>
  \<^verbatim>\<open>Net.tlsHandshake\<close>. The deferred \<^verbatim>\<open>tc.SetDeadline(time.Time{})\<close>
  runs when the function returns, whichever case of the \<^verbatim>\<open>select\<close> fired.
\<close>

definition Net_tlsHandshake ::
  "'s runtime \<Rightarrow> 's world \<Rightarrow> Context \<Rightarrow> netconn \<Rightarrow> error option \<times> 's world" where
  "Net_tlsHandshake rt w ctx tc =
     (let w1 = (case Deadline ctx of
                  Some deadline \<Rightarrow> emit (Conn_SetDeadline tc deadline) w
                | None \<Rightarrow> w);
          w2 = emit (Go_HandshakeContext ctx tc) w1
      in case select_ctx_Done_errch rt (state w2) ctx tc of
           (sel, s') \<Rightarrow>
             (let w3 = emit (Select sel) (w2\<lparr>state := s'\<rparr>);
                  res = (case sel of case_ctx_Done e \<Rightarrow> Some e | case_errch err \<Rightarrow> err);
                  w4 = (case Deadline ctx of
                          Some deadline \<Rightarrow> emit (Conn_SetDeadline tc zero_Time) w3
                        | None \<Rightarrow> w3)
              in (res, w4)))"

text \<open>
  \<^verbatim>\<open>Net.DialTLSContext\<close>. \<^verbatim>\<open>conn.Close()\<close> on a nil \<^verbatim>\<open>conn\<close>
  (a stack that returned neither a connection nor an error) is a panic. What the TLS
  library does with a \<^verbatim>\<open>*tls.Conn\<close> built around a nil connection is left
  to the run-time system.
\<close>

definition Net_DialTLSContext ::
  "'s runtime \<Rightarrow> 's Net \<Rightarrow> 's world \<Rightarrow> Context \<Rightarrow> string \<Rightarrow> string
     \<Rightarrow> (netconn option \<times> error option) exec \<times> 's world" where
  "Net_DialTLSContext rt n w ctx network address =
     (case net_SplitHostPort rt address of
        (hostname, port, Some err) \<Rightarrow> (Return (None, Some err), w)
      | (hostname, port, None) \<Rightarrow>
          (case Net_DialContext rt n w ctx network address of
             ((conn, Some err), w1) \<Rightarrow> (Return (None, Some err), w1)
           | ((conn, None), w1) \<Rightarrow>
               (case DefaultCertPool (Stack n) (state w1) of
                  (pool, s2) \<Rightarrow>
                    (let w2 = emit (Stack_DefaultCertPool pool) (w1\<lparr>state := s2\<rparr>);
                         config = \<lparr>RootCAs = pool, NextProtos = [], ServerName = hostname\<rparr>;
                         tc = tls_Client conn (Some config)
                     in case Net_tlsHandshake rt w2 ctx tc of
                          (Some err, w3) \<Rightarrow>
                            (case conn of
                               None \<Rightarrow> (Panic, w3)
                             | Some c \<Rightarrow> (Return (None, Some err), emit (Conn_Close c) w3))
                        | (None, w3) \<Rightarrow> (Return (Some tc, None), w3)))))"


record 's netListenerTLS =
  config :: "tls_Config option"
  listener :: "nat option"
  stack :: "'s UnderlyingNetwork"



section \<open>DPI: throttling flows by TLS SNI\<close>

text \<open>
  Modelled from the spec: the declarations of \<^verbatim>\<open>DPIDirection\<close> and of
  \<^verbatim>\<open>DPIPolicy\<close> with its flags are outside the files at hand. A direction is
  one of client-to-server and server-to-client; a policy has a delay, a set of flags
  and a packet loss rate, and the empty set of flags \<^verbatim>\<open>NONE\<close> is \<open>0\<close>.
  A \<^verbatim>\<open>float64\<close> is its 64 bits: the rule only copies it.
\<close>

datatype DPIDirection = DPIDirectionClientToServer | DPIDirectionServerToClient

record DPIPolicy =
  Delay :: Duration
  Flags :: "64 word"
  PLR :: "64 word"

definition DPIPolicy_Flags_NONE :: "64 word" where
  "DPIPolicy_Flags_NONE = 0"

text \<open>
  \<^verbatim>\<open>layers.IPProtocol\<close> of gopacket is the protocol number of the IP header.
\<close>

type_synonym IPProtocol = "8 word"

definition IPProtocolTCP :: IPProtocol where
  "IPProtocolTCP = 6"

definition IPProtocolUDP :: IPProtocol where
  "IPProtocolUDP = 17"

text \<open>
  The dissector is outside the files at hand: a \<^verbatim>\<open>DissectedPacket\<close> is what
  the methods the rule calls return for it. \<^verbatim>\<open>parseTLSServerName\<close> returns
  the server name and an error.
\<close>

record DissectedPacket =
  TransportProtocol :: IPProtocol
  parseTLSServerName :: "string \<times> error option"
  SourceIPAddress :: string
  SourcePort :: "16 word"
  DestinationIPAddress :: string
  DestinationPort :: "16 word"

text \<open>
  The logger is the list of the messages it was given, each a format and its arguments.
\<close>

datatype fmtarg = ArgString string | ArgPort "16 word" | ArgProtocol IPProtocol

type_synonym Logger = "(string \<times> fmtarg list) list"

definition Logger_Infof :: "Logger \<Rightarrow> string \<Rightarrow> fmtarg list \<Rightarrow> Logger" where
  "Logger_Infof l format v = l @ [(format, v)]"

record DPIThrottleTrafficForTLSSNI =
  Logger :: Logger
  PLR :: "64 word"
  SNI :: string

text \<open>
  \<^verbatim>\<open>DPIThrottleTrafficForTLSSNI.Filter\<close> returns the policy (nil is \<open>None\<close>),
  whether the rule matched, and the rule after the call (its logger has one more message
  when the rule matched).
\<close>

definition DPIThrottleTrafficForTLSSNI_Filter ::
  "DPIThrottleTrafficForTLSSNI \<Rightarrow> DPIDirection \<Rightarrow> DissectedPacket
     \<Rightarrow> (DPIPolicy option \<times> bool) \<times> DPIThrottleTrafficForTLSSNI" where
  "DPIThrottleTrafficForTLSSNI_Filter r direction packet =
     (if direction \<noteq> DPIDirectionClientToServer then ((None, False), r)
      else if TransportProtocol packet \<noteq> IPProtocolTCP then ((None, False), r)
      else case parseTLSServerName packet of
             (sni, Some err) \<Rightarrow> ((None, False), r)
           | (sni, None) \<Rightarrow>
               (if sni \<noteq> SNI r then ((None, False), r)
                else
                  (let r' = r\<lparr>Logger := Logger_Infof (Logger r)
                               ''netem: dpi: throttling flow %s:%d %s:%d/%s because SNI==%s''
                               [ArgString (SourceIPAddress packet),
                                ArgPort (SourcePort packet),
                                ArgString (DestinationIPAddress packet),
                                ArgPort (DestinationPort packet),
                                ArgProtocol (TransportProtocol packet),
                                ArgString sni]\<rparr>;
                       policy = \<lparr>Delay = 0, Flags = 0, PLR = DPIThrottleTrafficForTLSSNI.PLR r\<rparr>
                   in ((Some policy, True), r'))))"

section \<open>Reading a trace\<close>

text \<open>The arguments of a call of the stack's \<^verbatim>\<open>DialContext\<close>, and its results.\<close>

fun dial_call :: "event \<Rightarrow> (Context \<times> string \<times> string) option" where
  "dial_call (Stack_DialContext ctx network endpoint conn err) = Some (ctx, network, endpoint)"
| "dial_call ev = None"

fun dial_result :: "event \<Rightarrow> (netconn option \<times> error option) option" where
  "dial_result (Stack_DialContext ctx network endpoint conn err) = Some (conn, err)"
| "dial_result ev = None"

text \<open>A failed attempt: the endpoint dialled and the error the stack returned.\<close>

fun attempt_failure :: "event \<Rightarrow> (string \<times> error) option" where
  "attempt_failure (Stack_DialContext ctx network endpoint conn (Some e)) = Some (endpoint, e)"
| "attempt_failure ev = None"

text \<open>An annotated error: the endpoint and the error that \<^verbatim>\<open>fmt.Errorf\<close> wrapped.\<close>

fun annotation :: "error option \<Rightarrow> (string \<times> error) option" where
  "annotation (Some (WrapError p endpoint e)) = Some (endpoint, e)"
| "annotation e = None"

text \<open>The context a call into the stack was given, and the error it came back with.\<close>

fun stack_call_ctx :: "event \<Rightarrow> Context option" where
  "stack_call_ctx (Stack_GetaddrinfoLookupANY ctx domain addrs cname err) = Some ctx"
| "stack_call_ctx (Stack_DialContext ctx network endpoint conn err) = Some ctx"
| "stack_call_ctx ev = None"

fun stack_call_err :: "event \<Rightarrow> error option" where
  "stack_call_err (Stack_GetaddrinfoLookupANY ctx domain addrs cname err) = err"
| "stack_call_err (Stack_DialContext ctx network endpoint conn err) = err"
| "stack_call_err ev = None"

text \<open>
  What the description of \<^verbatim>\<open>DialContext\<close> says of the attempts \<open>evs\<close> made
  for the candidate addresses, and of the connection and error returned:
  \<^item> the attempts are calls of the stack's \<^verbatim>\<open>DialContext\<close> with the caller's
    context and network, for the candidates in their order, none skipped;
  \<^item> every attempt but the last failed;
  \<^item> with a nil error, the last attempt is the one whose connection is returned;
  \<^item> with an error, every candidate was attempted, every attempt failed, the connection
    is nil and the error is an \<^verbatim>\<open>ErrDial\<close> whose errors are, attempt by attempt and
    in order, the attempt's endpoint with the attempt's error.
\<close>

definition attempts_in_order ::
  "'s runtime \<Rightarrow> Context \<Rightarrow> string \<Rightarrow> string \<Rightarrow> string list \<Rightarrow> event list
     \<Rightarrow> netconn option \<Rightarrow> error option \<Rightarrow> bool" where
  "attempts_in_order rt ctx network port addresses evs conn err =
     (map dial_call evs =
        map (\<lambda>ip. Some (ctx, network, net_JoinHostPort rt ip port)) (take (length evs) addresses)
      \<and> list_all (\<lambda>ev. attempt_failure ev \<noteq> None) (butlast evs)
      \<and> (case err of
            None \<Rightarrow> evs \<noteq> [] \<and> dial_result (last evs) = Some (conn, None)
          | Some (ErrDial a children) \<Rightarrow>
              conn = None \<and> length evs = length addresses
              \<and> list_all (\<lambda>ev. attempt_failure ev \<noteq> None) evs
              \<and> map annotation children = map attempt_failure evs
          | Some e \<Rightarrow> False))"

text \<open>
  What the attempts look like when nothing but the stack's answers ends them, for the
  candidate addresses, the attempts \<open>evs\<close> made and the error returned:
  \<^item> every attempt is a call of the stack's \<^verbatim>\<open>DialContext\<close>;
  \<^item> with a candidate at hand, an attempt is made;
  \<^item> the last attempt made is one that the stack answered with a nil error, or it is
    the attempt for the last candidate;
  \<^item> an error returned after the attempts is the aggregate, and then every candidate
    was attempted and the aggregate holds one error per candidate.
\<close>

definition attempts_run_on :: "string list \<Rightarrow> event list \<Rightarrow> error option \<Rightarrow> bool" where
  "attempts_run_on candidates evs err =
     (list_all (\<lambda>ev. dial_call ev \<noteq> None) evs
      \<and> (candidates = [] \<or> evs \<noteq> [])
      \<and> (evs = [] \<or> stack_call_err (last evs) = None \<or> length evs = length candidates)
      \<and> (case err of
            None \<Rightarrow> True
          | Some (ErrDial a children) \<Rightarrow>
              length evs = length candidates \<and> length children = length candidates
          | Some e \<Rightarrow> False))"

section \<open>A stack and a run-time system for the examples\<close>

text \<open>
  The examples need one stack and one run-time system. The library functions are given
  by their values at the strings the examples use. The stack counts the calls it has
  served (its state), refuses every endpoint but \<^verbatim>\<open>10.0.0.1:443\<close>, fails at
  once with the context's error when the context is cancelled, and resolves
  \<^verbatim>\<open>ndt0.local\<close> to two addresses and \<^verbatim>\<open>empty.local\<close> to none.
\<close>

definition ECONNREFUSED :: error where
  "ECONNREFUSED = Foreign 111"

definition AddrError_missing_port :: error where
  "AddrError_missing_port = Foreign 3"

definition ErrNoSuchHost :: error where
  "ErrNoSuchHost = Foreign 4"

definition example_SplitHostPort :: "string \<Rightarrow> string \<times> string \<times> error option" where
  "example_SplitHostPort hostport =
     (if hostport = ''10.0.0.1:443'' then (''10.0.0.1'', ''443'', None)
      else if hostport = ''ndt0.local:443'' then (''ndt0.local'', ''443'', None)
      else if hostport = ''empty.local:443'' then (''empty.local'', ''443'', None)
      else ([], [], Some AddrError_missing_port))"

definition example_ParseIP :: "string \<Rightarrow> 8 word list option" where
  "example_ParseIP s =
     (if s = ''10.0.0.1'' then Some [0, 0, 0, 0, 0, 0, 0, 0, 0, 0, 255, 255, 10, 0, 0, 1]
      else None)"

definition example_JoinHostPort :: "string \<Rightarrow> string \<Rightarrow> string" where
  "example_JoinHostPort host port =
     (if CHR '':'' \<in> set host then ''['' @ host @ '']:'' @ port else host @ '':'' @ port)"

definition example_stack :: "nat UnderlyingNetwork" where
  "example_stack =
     \<lparr>DefaultCertPool = (\<lambda>s. (Some 1, Suc s)),
      DialContext = (\<lambda>s ctx network endpoint.
        (case Err ctx of
           Some e \<Rightarrow> ((None, Some e), Suc s)
         | None \<Rightarrow>
             if endpoint = ''10.0.0.1:443'' then ((Some (StackConn s), None), Suc s)
             else ((None, Some ECONNREFUSED), Suc s))),
      GetaddrinfoLookupANY = (\<lambda>s ctx domain.
        (case Err ctx of
           Some e \<Rightarrow> (([], [], Some e), Suc s)
         | None \<Rightarrow>
             if domain = ''ndt0.local'' then (([''10.0.0.9'', ''10.0.0.1''], [], None), Suc s)
             else if domain = ''empty.local'' then (([], [], None), Suc s)
             else (([], [], Some ErrNoSuchHost), Suc s))),
      ListenTCP = (\<lambda>s network addr. ((Some s, None), Suc s))\<rparr>"

definition example_net :: "nat Net" where
  "example_net = \<lparr>Stack = example_stack\<rparr>"

text \<open>
  A second stack: its resolver answers \<^verbatim>\<open>ndt0.local\<close> from a cache, whatever the
  state of the context; its \<^verbatim>\<open>DialContext\<close> is that of the first stack, which
  fails at once under a cancelled context.
\<close>

definition example_caching_stack :: "nat UnderlyingNetwork" where
  "example_caching_stack =
     example_stack\<lparr>GetaddrinfoLookupANY := (\<lambda>s ctx domain.
        if domain = ''ndt0.local'' then (([''10.0.0.9'', ''10.0.0.1''], [], None), Suc s)
        else (([], [], Some ErrNoSuchHost), Suc s))\<rparr>"

definition example_caching_net :: "nat Net" where
  "example_caching_net = \<lparr>Stack = example_caching_stack\<rparr>"

text \<open>
  The run-time system of the examples: the handshake of a connection ends the way
  \<open>sel\<close> says; the clock is the number of calls served.
\<close>

definition example_runtime :: "select_case \<Rightarrow> nat runtime" where
  "example_runtime sel =
     \<lparr>net_SplitHostPort = example_SplitHostPort,
      net_ParseIP = example_ParseIP,
      net_JoinHostPort = example_JoinHostPort,
      tls_HandshakeContext = (\<lambda>s ctx tc.
        (case sel of case_ctx_Done e \<Rightarrow> (Some e, Suc s) | case_errch r \<Rightarrow> (r, Suc s))),
      select_ctx_Done_errch = (\<lambda>s ctx tc. (sel, Suc s)),
      listener_Accept = (\<lambda>s l. ((Some (StackConn s), None), Suc s)),
      time_Now = (\<lambda>s. int s)\<rparr>"

definition example_world :: "nat world" where
  "example_world = \<lparr>state = 0, trace = [], next_ptr = 0\<rparr>"

definition example_ctx :: Context where
  "example_ctx = \<lparr>Deadline = Some 4000000000, Err = None\<rparr>"

text \<open>The world after the examples' dial of \<^verbatim>\<open>ndt0.local:443\<close>.\<close>

definition example_dialled :: "nat world" where
  "example_dialled =
     \<lparr>state = 3,
      trace = [Stack_GetaddrinfoLookupANY example_ctx ''ndt0.local'' [''10.0.0.9'', ''10.0.0.1''] [] None,
               Stack_DialContext example_ctx ''tcp'' ''10.0.0.9:443'' None (Some ECONNREFUSED),
               Stack_DialContext example_ctx ''tcp'' ''10.0.0.1:443'' (Some (StackConn 2)) None],
      next_ptr = 2\<rparr>"

definition example_tls_conn :: netconn where
  "example_tls_conn =
     tls_Client (Some (StackConn 2))
       (Some \<lparr>RootCAs = Some 1, NextProtos = [], ServerName = ''ndt0.local''\<rparr>)"

definition example_cancelled_ctx :: Context where
  "example_cancelled_ctx = \<lparr>Deadline = None, Err = Some context_Canceled\<rparr>"


definition example_rule :: DPIThrottleTrafficForTLSSNI where
  "example_rule = \<lparr>Logger = [], PLR = 0x3FB999999999999A, SNI = ''ndt0.local''\<rparr>"

definition example_ClientHello :: DissectedPacket where
  "example_ClientHello =
     \<lparr>TransportProtocol = 6, parseTLSServerName = (''ndt0.local'', None),
      SourceIPAddress = ''10.0.0.2'', SourcePort = 54321,
      DestinationIPAddress = ''10.0.0.1'', DestinationPort = 443\<rparr>"

section \<open>The aggregate error under \<^verbatim>\<open>errors.Is\<close>\<close>

lemma ErrDial_Is_iff:
  "ErrDial_Is fis es target \<longleftrightarrow> (\<exists>child \<in> set es. errors_Is fis child target)"
  by (induction es) auto

text \<open>
  C8. As stated the claim fails: \<^verbatim>\<open>errors.Is\<close> compares the error with the
  target before it asks the method, so an aggregate matches itself, also when its list
  is empty and no error of the list matches.
\<close>

theorem ErrDial_matches_itself_counterexample:
  "errors_Is plain_error (Some (ErrDial 5 [])) (Some (ErrDial 5 []))
     \<and> \<not> ErrDial_Is plain_error [] (Some (ErrDial 5 []))"
  by simp

text \<open>
  C8, amended. For every \<^verbatim>\<open>ErrDial\<close> aggregate and every non-nil target,
  \<^verbatim>\<open>errors.Is\<close> holds of the aggregate and the target if and only if the target
  is the aggregate itself or \<^verbatim>\<open>errors.Is\<close> holds of some error of the
  aggregate's list and the target (the second is what the method \<^verbatim>\<open>Is\<close>
  answers); so an aggregate with an empty list matches no target but itself.
\<close>

theorem ErrDial_errors_Is:
  "errors_Is fis (Some (ErrDial a es)) (Some target)
     \<longleftrightarrow> target = ErrDial a es \<or> (\<exists>child \<in> set es. errors_Is fis child (Some target))"
  by (auto simp: ErrDial_Is_iff)

theorem ErrDial_errors_Is_witness:
  "errors_Is plain_error (Some (ErrDial 5 [Some (WrapError 6 ''10.0.0.1:443'' (Foreign 111))]))
     (Some (Foreign 111))
   \<and> \<not> errors_Is plain_error (Some (ErrDial 5 [])) (Some (Foreign 111))"
  using ErrDial_errors_Is [of plain_error 5 "[Some (WrapError 6 ''10.0.0.1:443'' (Foreign 111))]" "Foreign 111"]
        ErrDial_errors_Is [of plain_error 5 "[]" "Foreign 111"]
  by simp

section \<open>The throttling rule\<close>

lemma Filter_result:
  "fst (DPIThrottleTrafficForTLSSNI_Filter r direction packet) =
     (if direction = DPIDirectionClientToServer
         \<and> TransportProtocol packet = IPProtocolTCP
         \<and> parseTLSServerName packet = (SNI r, None)
      then (Some \<lparr>Delay = 0, Flags = 0, PLR = DPIThrottleTrafficForTLSSNI.PLR r\<rparr>, True)
      else (None, False))"
  by (auto simp: DPIThrottleTrafficForTLSSNI_Filter_def Let_def split: prod.splits option.splits)

lemma Filter_keeps_configuration:
  "SNI (snd (DPIThrottleTrafficForTLSSNI_Filter r direction packet)) = SNI r
     \<and> DPIThrottleTrafficForTLSSNI.PLR (snd (DPIThrottleTrafficForTLSSNI_Filter r direction packet))
         = DPIThrottleTrafficForTLSSNI.PLR r"
  by (auto simp: DPIThrottleTrafficForTLSSNI_Filter_def Let_def split: prod.splits option.splits)

text \<open>
  C3. The rule returns a policy exactly when the direction is client-to-server, the
  transport protocol is TCP, the server name parses (nil error) and equals the
  configured SNI; the policy then has the configured PLR, delay zero and no flag; in
  every other case the rule returns no policy and does not match.
\<close>

theorem Filter_decision:
  "fst (DPIThrottleTrafficForTLSSNI_Filter r direction packet) =
     (if direction = DPIDirectionClientToServer
         \<and> TransportProtocol packet = IPProtocolTCP
         \<and> snd (parseTLSServerName packet) = None
         \<and> fst (parseTLSServerName packet) = SNI r
      then (Some \<lparr>Delay = 0, Flags = DPIPolicy_Flags_NONE, PLR = DPIThrottleTrafficForTLSSNI.PLR r\<rparr>, True)
      else (None, False))"
  by (auto simp: DPIThrottleTrafficForTLSSNI_Filter_def DPIPolicy_Flags_NONE_def Let_def
           split: prod.splits option.splits)

theorem Filter_decision_witness:
  "fst (DPIThrottleTrafficForTLSSNI_Filter example_rule DPIDirectionClientToServer example_ClientHello)
     = (Some \<lparr>Delay = 0, Flags = 0, PLR = 0x3FB999999999999A\<rparr>, True)"
  using Filter_decision [of example_rule DPIDirectionClientToServer example_ClientHello]
  by (simp add: example_rule_def example_ClientHello_def IPProtocolTCP_def DPIPolicy_Flags_NONE_def)

text \<open>
  C9. Two calls of the rule with the same direction and the same packet, the second on
  the rule as the first left it, return the same decision and the same policy (delay,
  PLR, flags); the calls leave the rule's SNI and PLR as they were, so the same holds of
  any number of calls.
\<close>

theorem Filter_deterministic:
  assumes first: "DPIThrottleTrafficForTLSSNI_Filter r direction packet = (res1, r1)"
      and second: "DPIThrottleTrafficForTLSSNI_Filter r1 direction packet = (res2, r2)"
  shows "res1 = res2 \<and> SNI r2 = SNI r
           \<and> DPIThrottleTrafficForTLSSNI.PLR r2 = DPIThrottleTrafficForTLSSNI.PLR r"
proof -
  have cfg1: "SNI r1 = SNI r" "DPIThrottleTrafficForTLSSNI.PLR r1 = DPIThrottleTrafficForTLSSNI.PLR r"
    using Filter_keeps_configuration [of r direction packet] first by simp_all
  have cfg2: "SNI r2 = SNI r1" "DPIThrottleTrafficForTLSSNI.PLR r2 = DPIThrottleTrafficForTLSSNI.PLR r1"
    using Filter_keeps_configuration [of r1 direction packet] second by simp_all
  have "res1 = fst (DPIThrottleTrafficForTLSSNI_Filter r direction packet)"
    using first by simp
  also have "\<dots> = fst (DPIThrottleTrafficForTLSSNI_Filter r1 direction packet)"
    unfolding Filter_result using cfg1 by simp
  also have "\<dots> = res2"
    using second by simp
  finally show ?thesis using cfg1 cfg2 by simp
qed

theorem Filter_deterministic_witness:
  "fst (DPIThrottleTrafficForTLSSNI_Filter
          (snd (DPIThrottleTrafficForTLSSNI_Filter example_rule DPIDirectionClientToServer example_ClientHello))
          DPIDirectionClientToServer example_ClientHello)
     = (Some \<lparr>Delay = 0, Flags = 0, PLR = 0x3FB999999999999A\<rparr>, True)"
  using Filter_deterministic [of example_rule DPIDirectionClientToServer example_ClientHello
          "fst (DPIThrottleTrafficForTLSSNI_Filter example_rule DPIDirectionClientToServer example_ClientHello)"
          "snd (DPIThrottleTrafficForTLSSNI_Filter example_rule DPIDirectionClientToServer example_ClientHello)"
          "fst (DPIThrottleTrafficForTLSSNI_Filter
                  (snd (DPIThrottleTrafficForTLSSNI_Filter example_rule DPIDirectionClientToServer example_ClientHello))
                  DPIDirectionClientToServer example_ClientHello)"
          "snd (DPIThrottleTrafficForTLSSNI_Filter
                  (snd (DPIThrottleTrafficForTLSSNI_Filter example_rule DPIDirectionClientToServer example_ClientHello))
                  DPIDirectionClientToServer example_ClientHello)"]
  by (simp add: DPIThrottleTrafficForTLSSNI_Filter_def example_rule_def example_ClientHello_def
        IPProtocolTCP_def Let_def)

section \<open>Dialling\<close>

lemma loop_attempts:
  "Net_DialContext_loop rt n ctx network port addrs a errs w = ((conn, err), w') \<Longrightarrow>
     \<exists>evs. trace w' = trace w @ evs
       \<and> map dial_call evs =
           map (\<lambda>ip. Some (ctx, network, net_JoinHostPort rt ip port)) (take (length evs) addrs)
       \<and> list_all (\<lambda>ev. attempt_failure ev \<noteq> None) (butlast evs)
       \<and> (case err of
             None \<Rightarrow> evs \<noteq> [] \<and> dial_result (last evs) = Some (conn, None)
           | Some e \<Rightarrow>
               conn = None \<and> length evs = length addrs
               \<and> list_all (\<lambda>ev. attempt_failure ev \<noteq> None) evs
               \<and> (\<exists>new. e = ErrDial a (errs @ new)
                     \<and> map annotation new = map attempt_failure evs))"
proof (induction addrs arbitrary: errs w)
  case Nil
  then show ?case by auto
next
  case (Cons ip rest)
  define endpoint where "endpoint = net_JoinHostPort rt ip port"
  obtain c e s' where call: "DialContext (Stack n) (state w) ctx network endpoint = ((c, e), s')"
    by (metis prod.exhaust)
  define ev where "ev = Stack_DialContext ctx network endpoint c e"
  define w1 where "w1 = emit ev (w\<lparr>state := s'\<rparr>)"
  have tr1: "trace w1 = trace w @ [ev]"
    by (simp add: w1_def emit_def)
  show ?case
  proof (cases e)
    case None
    then have "conn = c" "err = None" "w' = w1"
      using Cons.prems call by (auto simp add: endpoint_def ev_def w1_def Let_def)
    then show ?thesis
      using tr1 None by (intro exI [of _ "[ev]"]) (simp add: ev_def endpoint_def)
  next
    case (Some x)
    define w2 where "w2 = snd (new_ptr w1)"
    define p where "p = fst (new_ptr w1)"
    have tr2: "trace w2 = trace w @ [ev]"
      using tr1 by (simp add: w2_def new_ptr_def)
    have rec: "Net_DialContext_loop rt n ctx network port rest a
                 (errs @ [Some (WrapError p endpoint x)]) w2 = ((conn, err), w')"
      using Cons.prems call Some
      by (simp add: endpoint_def ev_def w1_def w2_def p_def Let_def split: prod.splits)
    from Cons.IH [OF rec] obtain evs where
      t: "trace w' = trace w2 @ evs"
      and calls: "map dial_call evs =
           map (\<lambda>ip. Some (ctx, network, net_JoinHostPort rt ip port)) (take (length evs) rest)"
      and fails: "list_all (\<lambda>ev. attempt_failure ev \<noteq> None) (butlast evs)"
      and out: "(case err of
             None \<Rightarrow> evs \<noteq> [] \<and> dial_result (last evs) = Some (conn, None)
           | Some e \<Rightarrow>
               conn = None \<and> length evs = length rest
               \<and> list_all (\<lambda>ev. attempt_failure ev \<noteq> None) evs
               \<and> (\<exists>new. e = ErrDial a ((errs @ [Some (WrapError p endpoint x)]) @ new)
                     \<and> map annotation new = map attempt_failure evs))"
      by blast
    have evf: "attempt_failure ev = Some (endpoint, x)"
      by (simp add: ev_def Some)
    have "trace w' = trace w @ (ev # evs)"
      using t tr2 by simp
    moreover have "map dial_call (ev # evs) =
           map (\<lambda>ip. Some (ctx, network, net_JoinHostPort rt ip port))
             (take (length (ev # evs)) (ip # rest))"
      using calls by (simp add: ev_def endpoint_def)
    moreover have "list_all (\<lambda>ev. attempt_failure ev \<noteq> None) (butlast (ev # evs))"
      using fails evf by simp
    moreover have "(case err of
             None \<Rightarrow> ev # evs \<noteq> [] \<and> dial_result (last (ev # evs)) = Some (conn, None)
           | Some e \<Rightarrow>
               conn = None \<and> length (ev # evs) = length (ip # rest)
               \<and> list_all (\<lambda>ev. attempt_failure ev \<noteq> None) (ev # evs)
               \<and> (\<exists>new. e = ErrDial a (errs @ new)
                     \<and> map annotation new = map attempt_failure (ev # evs)))"
    proof (cases err)
      case None
      then show ?thesis using out by simp
    next
      case (Some e')
      then obtain new where new: "e' = ErrDial a ((errs @ [Some (WrapError p endpoint x)]) @ new)"
        "map annotation new = map attempt_failure evs"
        using out by auto
      have "e' = ErrDial a (errs @ (Some (WrapError p endpoint x) # new))"
        using new(1) by simp
      moreover have "map annotation (Some (WrapError p endpoint x) # new) = map attempt_failure (ev # evs)"
        using new(2) evf by simp
      ultimately show ?thesis
        using Some out evf by auto
    qed
    ultimately show ?thesis by blast
  qed
qed


lemma loop_attempts_in_order:
  assumes "Net_DialContext_loop rt n ctx network port addrs a [] w = ((conn, err), w')"
  shows "\<exists>evs. trace w' = trace w @ evs \<and> attempts_in_order rt ctx network port addrs evs conn err"
proof -
  from loop_attempts [OF assms] obtain evs where
    t: "trace w' = trace w @ evs"
    and calls: "map dial_call evs =
           map (\<lambda>ip. Some (ctx, network, net_JoinHostPort rt ip port)) (take (length evs) addrs)"
    and fails: "list_all (\<lambda>ev. attempt_failure ev \<noteq> None) (butlast evs)"
    and out: "(case err of
             None \<Rightarrow> evs \<noteq> [] \<and> dial_result (last evs) = Some (conn, None)
           | Some e \<Rightarrow>
               conn = None \<and> length evs = length addrs
               \<and> list_all (\<lambda>ev. attempt_failure ev \<noteq> None) evs
               \<and> (\<exists>new. e = ErrDial a ([] @ new)
                     \<and> map annotation new = map attempt_failure evs))"
    by blast
  have "attempts_in_order rt ctx network port addrs evs conn err"
    unfolding attempts_in_order_def using calls fails out
    by (auto split: option.splits)
  with t show ?thesis by blast
qed

lemma Net_DialContext_run:
  assumes split: "net_SplitHostPort rt address = (domain, port, None)"
      and run: "Net_DialContext rt n w ctx network address = ((conn, err), w')"
  shows "case net_ParseIP rt domain of
           Some v \<Rightarrow>
             (\<exists>evs. trace w' = trace w @ evs
                \<and> attempts_in_order rt ctx network port [domain] evs conn err)
         | None \<Rightarrow>
             (case GetaddrinfoLookupANY (Stack n) (state w) ctx domain of
                ((addresses, cname, Some e), s') \<Rightarrow>
                  trace w' = trace w @ [Stack_GetaddrinfoLookupANY ctx domain addresses cname (Some e)]
                  \<and> conn = None \<and> err = Some e
              | ((addresses, cname, None), s') \<Rightarrow>
                  (\<exists>evs. trace w' =
                            trace w @ Stack_GetaddrinfoLookupANY ctx domain addresses cname None # evs
                     \<and> attempts_in_order rt ctx network port addresses evs conn err))"
proof (cases "net_ParseIP rt domain")
  case (Some v)
  have "Net_DialContext_loop rt n ctx network port [domain] (next_ptr w) []
          (snd (new_ptr w)) = ((conn, err), w')"
    using run split Some by (simp add: Net_DialContext_def new_ptr_def)
  from loop_attempts_in_order [OF this] show ?thesis
    using Some by (simp add: new_ptr_def)
next
  case None
  obtain addresses cname lerr s' where
    look: "GetaddrinfoLookupANY (Stack n) (state w) ctx domain = ((addresses, cname, lerr), s')"
    by (metis prod.exhaust)
  define w1 where
    "w1 = emit (Stack_GetaddrinfoLookupANY ctx domain addresses cname lerr) (w\<lparr>state := s'\<rparr>)"
  have lh: "Net_LookupHost n w ctx domain = ((addresses, lerr), w1)"
    by (simp add: Net_LookupHost_def look w1_def)
  have tr1: "trace w1 = trace w @ [Stack_GetaddrinfoLookupANY ctx domain addresses cname lerr]"
    by (simp add: w1_def emit_def)
  show ?thesis
  proof (cases lerr)
    case (Some e)
    then have "conn = None" "err = Some e" "w' = w1"
      using run split None lh by (auto simp add: Net_DialContext_def)
    then show ?thesis
      using None look Some tr1 by simp
  next
    case lnone: None
    have "Net_DialContext_loop rt n ctx network port addresses (next_ptr w1) []
            (snd (new_ptr w1)) = ((conn, err), w')"
      using run split None lh lnone by (simp add: Net_DialContext_def new_ptr_def)
    from loop_attempts_in_order [OF this] show ?thesis
      using None look lnone tr1 by (simp add: new_ptr_def)
  qed
qed

text \<open>
  C1. A call first splits the address; an address that does not split is the error
  returned, and nothing is called. Otherwise: if the host parses as a literal IP, the
  calls made are attempts only (no resolver call) and that IP is the only candidate;
  else the stack's resolver is called first, its error is returned as it is, and its
  addresses are the candidates. The attempts are calls of the stack's
  \<^verbatim>\<open>DialContext\<close> for the candidates in order; the first success is returned
  with a nil error and ends the attempts; when every attempt fails, the connection is
  nil and the error is an \<^verbatim>\<open>ErrDial\<close> with one error per attempt, in attempt
  order, each wrapping the attempt's error under the attempt's endpoint.
\<close>

theorem Net_DialContext_attempts:
  assumes run: "Net_DialContext rt n w ctx network address = ((conn, err), w')"
  shows "case net_SplitHostPort rt address of
           (domain, port, Some e) \<Rightarrow> conn = None \<and> err = Some e \<and> w' = w
         | (domain, port, None) \<Rightarrow>
             (case net_ParseIP rt domain of
                Some v \<Rightarrow>
                  (\<exists>evs. trace w' = trace w @ evs
                     \<and> attempts_in_order rt ctx network port [domain] evs conn err)
              | None \<Rightarrow>
                  (case GetaddrinfoLookupANY (Stack n) (state w) ctx domain of
                     ((addresses, cname, Some e), s') \<Rightarrow>
                       trace w' = trace w @ [Stack_GetaddrinfoLookupANY ctx domain addresses cname (Some e)]
                       \<and> conn = None \<and> err = Some e
                   | ((addresses, cname, None), s') \<Rightarrow>
                       (\<exists>evs. trace w' =
                                 trace w @ Stack_GetaddrinfoLookupANY ctx domain addresses cname None # evs
                          \<and> attempts_in_order rt ctx network port addresses evs conn err)))"
proof (cases "net_SplitHostPort rt address")
  case (fields domain port serr)
  show ?thesis
  proof (cases serr)
    case None
    with fields have split: "net_SplitHostPort rt address = (domain, port, None)"
      by simp
    show ?thesis
      unfolding split using Net_DialContext_run [OF split run] by simp
  next
    case (Some e)
    with fields run show ?thesis
      by (auto simp: Net_DialContext_def)
  qed
qed

theorem Net_DialContext_attempts_witness:
  "Net_DialContext (example_runtime (case_errch None)) example_net example_world example_ctx
      ''tcp'' ''ndt0.local:443''
     = ((Some (StackConn 2), None), example_dialled)
   \<and> attempts_in_order (example_runtime (case_errch None)) example_ctx ''tcp'' ''443''
        [''10.0.0.9'', ''10.0.0.1'']
        [Stack_DialContext example_ctx ''tcp'' ''10.0.0.9:443'' None (Some ECONNREFUSED),
         Stack_DialContext example_ctx ''tcp'' ''10.0.0.1:443'' (Some (StackConn 2)) None]
        (Some (StackConn 2)) None"
proof -
  let ?rt = "example_runtime (case_errch None)"
  have run: "Net_DialContext ?rt example_net example_world example_ctx ''tcp'' ''ndt0.local:443''
               = ((Some (StackConn 2), None), example_dialled)"
    by (simp add: Net_DialContext_def Net_LookupHost_def example_runtime_def example_SplitHostPort_def
          example_ParseIP_def example_JoinHostPort_def example_net_def example_stack_def
          example_world_def example_ctx_def example_dialled_def emit_def new_ptr_def
          ECONNREFUSED_def Let_def)
  show ?thesis
    using Net_DialContext_attempts [OF run] run
    by (simp add: example_runtime_def example_SplitHostPort_def example_ParseIP_def
          example_net_def example_stack_def example_world_def example_ctx_def
          example_dialled_def)
qed

section \<open>Cancellation and empty resolutions\<close>

lemma dial_call_ctx: "dial_call ev = Some (ctx, network, endpoint) \<Longrightarrow> stack_call_ctx ev = Some ctx"
  by (cases ev) simp_all

lemma dial_result_err: "dial_result ev = Some (conn, err) \<Longrightarrow> stack_call_err ev = err"
  by (cases ev) simp_all

lemma attempt_failure_err: "attempt_failure ev = Some (endpoint, e) \<Longrightarrow> stack_call_err ev = Some e"
  by (cases ev rule: attempt_failure.cases) simp_all

lemma annotation_Some: "annotation child = Some (endpoint, e) \<Longrightarrow> \<exists>p. child = Some (WrapError p endpoint e)"
  by (cases child rule: annotation.cases) simp_all

lemma attempts_ctx:
  assumes "attempts_in_order rt ctx network port addrs evs conn err"
  shows "list_all (\<lambda>ev. stack_call_ctx ev = Some ctx) evs"
proof -
  have m: "map dial_call evs =
        map (\<lambda>ip. Some (ctx, network, net_JoinHostPort rt ip port)) (take (length evs) addrs)"
    using assms by (simp add: attempts_in_order_def)
  have "stack_call_ctx ev = Some ctx" if "ev \<in> set evs" for ev
  proof -
    have "dial_call ev \<in> set (map dial_call evs)"
      using that by simp
    then obtain ip where "dial_call ev = Some (ctx, network, net_JoinHostPort rt ip port)"
      unfolding m by auto
    then show ?thesis by (rule dial_call_ctx)
  qed
  then show ?thesis by (simp add: list_all_iff)
qed

lemma attempts_run_on:
  assumes ord: "attempts_in_order rt ctx network port candidates evs conn err"
  shows "attempts_run_on candidates evs err"
proof -
  have m: "map dial_call evs =
        map (\<lambda>ip. Some (ctx, network, net_JoinHostPort rt ip port)) (take (length evs) candidates)"
    using ord by (simp add: attempts_in_order_def)
  have "dial_call ev \<noteq> None" if "ev \<in> set evs" for ev
  proof -
    have "dial_call ev \<in> set (map dial_call evs)"
      using that by simp
    then show ?thesis
      unfolding m by auto
  qed
  then have calls: "list_all (\<lambda>ev. dial_call ev \<noteq> None) evs"
    by (simp add: list_all_iff)
  show ?thesis
  proof (cases err)
    case None
    then have "evs \<noteq> []" and "dial_result (last evs) = Some (conn, None)"
      using ord by (simp_all add: attempts_in_order_def)
    then show ?thesis
      using calls None by (simp add: attempts_run_on_def dial_result_err)
  next
    case (Some e)
    then obtain a children where e: "e = ErrDial a children"
      and len: "length evs = length candidates"
      and ann: "map annotation children = map attempt_failure evs"
      using ord by (auto simp: attempts_in_order_def split: error.splits)
    have "length children = length evs"
      using ann by (metis length_map)
    then show ?thesis
      using calls Some e len by (auto simp: attempts_run_on_def)
  qed
qed

lemma attempts_all_failed_match:
  assumes ord: "attempts_in_order rt ctx network port addrs evs conn err"
      and ne: "evs \<noteq> []"
      and all: "list_all (\<lambda>ev. errors_Is fis (stack_call_err ev) (Some c)) evs"
  shows "conn = None \<and> errors_Is fis err (Some c)"
proof (cases err)
  case None
  then have "evs \<noteq> []" and "dial_result (last evs) = Some (conn, None)"
    using ord by (simp_all add: attempts_in_order_def)
  then have "stack_call_err (last evs) = None" and "last evs \<in> set evs"
    by (simp_all add: dial_result_err)
  then have "errors_Is fis None (Some c)"
    using all by (metis (mono_tags, lifting) list_all_iff)
  then show ?thesis by simp
next
  case (Some e)
  then obtain a children where e: "e = ErrDial a children"
    and cn: "conn = None"
    and ann: "map annotation children = map attempt_failure evs"
    and fl: "list_all (\<lambda>ev. attempt_failure ev \<noteq> None) evs"
    using ord by (auto simp: attempts_in_order_def split: error.splits)
  from ne obtain ev evs' where evs: "evs = ev # evs'"
    by (cases evs) auto
  with ann obtain child rest where ch: "children = child # rest"
    "annotation child = attempt_failure ev"
    by (cases children) auto
  from fl evs obtain endpoint x where af: "attempt_failure ev = Some (endpoint, x)"
    by auto
  then obtain p where child: "child = Some (WrapError p endpoint x)"
    using annotation_Some ch(2) by metis
  have "errors_Is fis (stack_call_err ev) (Some c)"
    using all evs by simp
  then have "errors_is fis x c"
    using attempt_failure_err [OF af] by simp
  then have "errors_is fis (ErrDial a children) c"
    by (simp add: ch(1) child)
  then show ?thesis
    using cn Some e by simp
qed

text \<open>
  C4, amended. \<^verbatim>\<open>DialContext\<close> checks the context neither before the first
  attempt nor between attempts. When the address splits, whatever the state of the
  context: the resolver is called for a host that is not a literal IP; with a candidate
  at hand the first attempt is made; the attempts end only with an attempt that the
  stack answered with a nil error or with the last candidate; and the error returned is
  the resolver's own or the aggregate with one error per candidate, never an error of
  the context made by the facade. Every call into the stack is given the caller's
  context, so cancellation is honoured by the stack, during each call: when every attempt
  came back with an error that matches \<open>c\<close> under \<^verbatim>\<open>errors.Is\<close> (as from a
  stack that fails a call under a cancelled context with the context's error), the
  connection returned is nil and the error returned matches \<open>c\<close>.
\<close>

theorem Net_DialContext_cancellation:
  assumes split: "net_SplitHostPort rt address = (domain, port, None)"
      and run: "Net_DialContext rt n w ctx network address = ((conn, err), w')"
  shows "\<exists>pre evs.
           trace w' = trace w @ pre @ evs
         \<and> pre @ evs \<noteq> []
         \<and> list_all (\<lambda>ev. stack_call_ctx ev = Some ctx) (pre @ evs)
         \<and> (case net_ParseIP rt domain of
               Some v \<Rightarrow> pre = [] \<and> attempts_run_on [domain] evs err
             | None \<Rightarrow>
                 (case GetaddrinfoLookupANY (Stack n) (state w) ctx domain of
                    ((addresses, cname, Some e), s') \<Rightarrow>
                      pre = [Stack_GetaddrinfoLookupANY ctx domain addresses cname (Some e)]
                      \<and> evs = [] \<and> conn = None \<and> err = Some e
                  | ((addresses, cname, None), s') \<Rightarrow>
                      pre = [Stack_GetaddrinfoLookupANY ctx domain addresses cname None]
                      \<and> attempts_run_on addresses evs err))
         \<and> (evs \<noteq> [] \<and> list_all (\<lambda>ev. errors_Is fis (stack_call_err ev) (Some c)) evs
              \<longrightarrow> conn = None \<and> errors_Is fis err (Some c))"
proof (cases "net_ParseIP rt domain")
  case (Some v)
  with Net_DialContext_run [OF split run] obtain evs where
    t: "trace w' = trace w @ evs"
    and ord: "attempts_in_order rt ctx network port [domain] evs conn err"
    by auto
  have ro: "attempts_run_on [domain] evs err"
    using ord by (rule attempts_run_on)
  then have ne: "evs \<noteq> []"
    by (simp add: attempts_run_on_def)
  have imp: "evs \<noteq> [] \<and> list_all (\<lambda>ev. errors_Is fis (stack_call_err ev) (Some c)) evs
               \<longrightarrow> conn = None \<and> errors_Is fis err (Some c)"
    using attempts_all_failed_match [OF ord] by blast
  show ?thesis
    using t ne ro Some attempts_ctx [OF ord] imp
    by (rule_tac x = "[]" in exI, rule_tac x = evs in exI) simp
next
  case None
  obtain addresses cname lerr s' where
    look: "GetaddrinfoLookupANY (Stack n) (state w) ctx domain = ((addresses, cname, lerr), s')"
    by (metis prod.exhaust)
  let ?lev = "Stack_GetaddrinfoLookupANY ctx domain addresses cname lerr"
  show ?thesis
  proof (cases lerr)
    case (Some e)
    then have "trace w' = trace w @ [?lev]" "conn = None" "err = Some e"
      using Net_DialContext_run [OF split run] None look by simp_all
    then show ?thesis
      using Some None look
      by (rule_tac x = "[?lev]" in exI, rule_tac x = "[]" in exI) simp
  next
    case lnone: None
    then obtain evs where t: "trace w' = trace w @ ?lev # evs"
      and ord: "attempts_in_order rt ctx network port addresses evs conn err"
      using Net_DialContext_run [OF split run] None look by auto
    have imp: "evs \<noteq> [] \<and> list_all (\<lambda>ev. errors_Is fis (stack_call_err ev) (Some c)) evs
                 \<longrightarrow> conn = None \<and> errors_Is fis err (Some c)"
      using attempts_all_failed_match [OF ord] by blast
    show ?thesis
      using t None look lnone attempts_ctx [OF ord] attempts_run_on [OF ord] imp
      by (rule_tac x = "[?lev]" in exI, rule_tac x = evs in exI) simp
  qed
qed

text \<open>
  C4. As stated the claim fails. With a context that is cancelled from the start and a
  literal IP, the stack's \<^verbatim>\<open>DialContext\<close> is called all the same. With such a
  context and a resolver that still answers with two addresses, the second address is
  dialled after the first attempt has failed with the context's error, and what comes
  back is the aggregate of both errors.
\<close>

theorem Net_DialContext_cancelled_counterexample:
  "Err example_cancelled_ctx = Some context_Canceled
   \<and> Net_DialContext (example_runtime (case_errch None)) example_net example_world
        example_cancelled_ctx ''tcp'' ''10.0.0.1:443''
     = ((None, Some (ErrDial 0 [Some (WrapError 1 ''10.0.0.1:443'' context_Canceled)])),
        \<lparr>state = 1,
         trace = [Stack_DialContext example_cancelled_ctx ''tcp'' ''10.0.0.1:443'' None
                    (Some context_Canceled)],
         next_ptr = 2\<rparr>)
   \<and> Net_DialContext (example_runtime (case_errch None)) example_caching_net example_world
        example_cancelled_ctx ''tcp'' ''ndt0.local:443''
     = ((None, Some (ErrDial 0 [Some (WrapError 1 ''10.0.0.9:443'' context_Canceled),
                                Some (WrapError 2 ''10.0.0.1:443'' context_Canceled)])),
        \<lparr>state = 3,
         trace = [Stack_GetaddrinfoLookupANY example_cancelled_ctx ''ndt0.local''
                    [''10.0.0.9'', ''10.0.0.1''] [] None,
                  Stack_DialContext example_cancelled_ctx ''tcp'' ''10.0.0.9:443'' None
                    (Some context_Canceled),
                  Stack_DialContext example_cancelled_ctx ''tcp'' ''10.0.0.1:443'' None
                    (Some context_Canceled)],
         next_ptr = 3\<rparr>)"
  by (simp add: Net_DialContext_def Net_LookupHost_def example_runtime_def example_SplitHostPort_def
        example_ParseIP_def example_JoinHostPort_def example_net_def example_stack_def
        example_caching_net_def example_caching_stack_def
        example_world_def example_cancelled_ctx_def emit_def new_ptr_def Let_def)

theorem Net_DialContext_cancellation_witness:
  "attempts_run_on [''10.0.0.9'', ''10.0.0.1'']
     [Stack_DialContext example_cancelled_ctx ''tcp'' ''10.0.0.9:443'' None (Some context_Canceled),
      Stack_DialContext example_cancelled_ctx ''tcp'' ''10.0.0.1:443'' None (Some context_Canceled)]
     (snd (fst (Net_DialContext (example_runtime (case_errch None)) example_caching_net
                  example_world example_cancelled_ctx ''tcp'' ''ndt0.local:443'')))
   \<and> errors_Is plain_error
       (snd (fst (Net_DialContext (example_runtime (case_errch None)) example_caching_net
                    example_world example_cancelled_ctx ''tcp'' ''ndt0.local:443'')))
       (Some context_Canceled)"
proof -
  let ?rt = "example_runtime (case_errch None)"
  let ?lev = "Stack_GetaddrinfoLookupANY example_cancelled_ctx ''ndt0.local''
                [''10.0.0.9'', ''10.0.0.1''] [] None"
  let ?ev1 = "Stack_DialContext example_cancelled_ctx ''tcp'' ''10.0.0.9:443'' None (Some context_Canceled)"
  let ?ev2 = "Stack_DialContext example_cancelled_ctx ''tcp'' ''10.0.0.1:443'' None (Some context_Canceled)"
  let ?err = "Some (ErrDial 0 [Some (WrapError 1 ''10.0.0.9:443'' context_Canceled),
                               Some (WrapError 2 ''10.0.0.1:443'' context_Canceled)])"
  let ?w' = "\<lparr>state = 3::nat, trace = [?lev, ?ev1, ?ev2], next_ptr = 3\<rparr>"
  have split: "net_SplitHostPort ?rt ''ndt0.local:443'' = (''ndt0.local'', ''443'', None)"
    by (simp add: example_runtime_def example_SplitHostPort_def)
  have run: "Net_DialContext ?rt example_caching_net example_world example_cancelled_ctx
               ''tcp'' ''ndt0.local:443'' = ((None, ?err), ?w')"
    by (simp add: Net_DialContext_def Net_LookupHost_def example_runtime_def example_SplitHostPort_def
          example_ParseIP_def example_JoinHostPort_def example_stack_def
          example_caching_net_def example_caching_stack_def
          example_world_def example_cancelled_ctx_def emit_def new_ptr_def Let_def)
  have name: "net_ParseIP ?rt ''ndt0.local'' = None"
    by (simp add: example_runtime_def example_ParseIP_def)
  have look: "GetaddrinfoLookupANY (Stack example_caching_net) (state example_world)
                example_cancelled_ctx ''ndt0.local''
                = (([''10.0.0.9'', ''10.0.0.1''], [], None), 1)"
    by (simp add: example_caching_net_def example_caching_stack_def example_world_def)
  from Net_DialContext_cancellation [OF split run, of plain_error context_Canceled]
  obtain pre evs where t: "trace ?w' = trace example_world @ pre @ evs"
    and pre: "pre = [?lev]"
    and ro: "attempts_run_on [''10.0.0.9'', ''10.0.0.1''] evs ?err"
    and imp: "evs \<noteq> [] \<and> list_all (\<lambda>ev. errors_Is plain_error (stack_call_err ev) (Some context_Canceled)) evs
                \<longrightarrow> errors_Is plain_error ?err (Some context_Canceled)"
    unfolding name look by auto
  have evs: "evs = [?ev1, ?ev2]"
    using t pre by (simp add: example_world_def)
  have "errors_Is plain_error ?err (Some context_Canceled)"
    using imp unfolding evs by (simp add: context_Canceled_def)
  then show ?thesis
    using ro run unfolding evs by simp
qed

text \<open>
  C2. As stated the claim fails: when the resolver returns no address and no error, the
  loop has nothing to try and the aggregate is returned with no error in it.
\<close>

theorem Net_DialContext_empty_resolution_counterexample:
  "GetaddrinfoLookupANY (Stack example_net) (state example_world) example_ctx ''empty.local''
     = (([], [], None), 1)
   \<and> Net_DialContext (example_runtime (case_errch None)) example_net example_world example_ctx
        ''tcp'' ''empty.local:443''
     = ((None, Some (ErrDial 0 [])),
        \<lparr>state = 1,
         trace = [Stack_GetaddrinfoLookupANY example_ctx ''empty.local'' [] [] None],
         next_ptr = 1\<rparr>)"
  by (simp add: Net_DialContext_def Net_LookupHost_def example_runtime_def example_SplitHostPort_def
        example_ParseIP_def example_net_def example_stack_def
        example_world_def example_ctx_def emit_def new_ptr_def Let_def)

text \<open>
  C2, amended. When the host is not a literal IP and the resolver returns an empty list
  with a nil error, \<^verbatim>\<open>DialContext\<close> makes no attempt and returns a nil connection
  with an \<^verbatim>\<open>ErrDial\<close> that holds no error; the resolver's error is returned,
  unchanged and without any attempt, when the resolver call itself fails.
\<close>

theorem Net_DialContext_empty_resolution:
  assumes split: "net_SplitHostPort rt address = (domain, port, None)"
      and name: "net_ParseIP rt domain = None"
      and look: "GetaddrinfoLookupANY (Stack n) (state w) ctx domain = ((addresses, cname, lerr), s')"
  shows "(lerr = None \<and> addresses = [] \<longrightarrow>
            Net_DialContext rt n w ctx network address =
              ((None, Some (ErrDial (next_ptr w) [])),
               w\<lparr>state := s',
                 trace := trace w @ [Stack_GetaddrinfoLookupANY ctx domain [] cname None],
                 next_ptr := Suc (next_ptr w)\<rparr>))
       \<and> (\<forall>e. lerr = Some e \<longrightarrow>
            Net_DialContext rt n w ctx network address =
              ((None, Some e),
               w\<lparr>state := s',
                 trace := trace w @ [Stack_GetaddrinfoLookupANY ctx domain addresses cname (Some e)]\<rparr>))"
  using assms
  by (simp add: Net_DialContext_def Net_LookupHost_def emit_def new_ptr_def)

theorem Net_DialContext_empty_resolution_witness:
  "Net_DialContext (example_runtime (case_errch None)) example_net example_world example_ctx
        ''tcp'' ''empty.local:443''
     = ((None, Some (ErrDial 0 [])),
        \<lparr>state = 1,
         trace = [Stack_GetaddrinfoLookupANY example_ctx ''empty.local'' [] [] None],
         next_ptr = 1\<rparr>)"
proof -
  let ?rt = "example_runtime (case_errch None)"
  have split: "net_SplitHostPort ?rt ''empty.local:443'' = (''empty.local'', ''443'', None)"
    by (simp add: example_runtime_def example_SplitHostPort_def)
  have name: "net_ParseIP ?rt ''empty.local'' = None"
    by (simp add: example_runtime_def example_ParseIP_def)
  have look: "GetaddrinfoLookupANY (Stack example_net) (state example_world) example_ctx ''empty.local''
                = (([], [], None), 1)"
    by (simp add: example_net_def example_stack_def example_world_def example_ctx_def)
  show ?thesis
    using Net_DialContext_empty_resolution [OF split name look, of "''tcp''"]
    by (simp add: example_world_def)
qed

section \<open>TLS: dialling and accepting\<close>

lemma Net_tlsHandshake_run:
  assumes "select_ctx_Done_errch rt (state w) ctx tc = (sel, s')"
  shows "Net_tlsHandshake rt w ctx tc =
           ((case sel of case_ctx_Done e \<Rightarrow> Some e | case_errch r \<Rightarrow> r),
            w\<lparr>state := s',
              trace := trace w
                @ (case Deadline ctx of Some d \<Rightarrow> [Conn_SetDeadline tc d] | None \<Rightarrow> [])
                @ [Go_HandshakeContext ctx tc, Select sel]
                @ (case Deadline ctx of Some d \<Rightarrow> [Conn_SetDeadline tc zero_Time] | None \<Rightarrow> [])\<rparr>)"
  using assms
  by (cases "Deadline ctx") (simp_all add: Net_tlsHandshake_def emit_def Let_def)

lemma Net_DialTLSContext_run:
  assumes split: "net_SplitHostPort rt address = (hostname, port, None)"
      and dial: "Net_DialContext rt n w ctx network address = ((Some c, None), w1)"
      and pool: "DefaultCertPool (Stack n) (state w1) = (pool, s2)"
      and tc: "tc = tls_Client (Some c) (Some \<lparr>RootCAs = pool, NextProtos = [], ServerName = hostname\<rparr>)"
      and sel: "select_ctx_Done_errch rt s2 ctx tc = (sel, s3)"
      and evs: "evs = Stack_DefaultCertPool pool
                  # (case Deadline ctx of Some d \<Rightarrow> [Conn_SetDeadline tc d] | None \<Rightarrow> [])
                  @ [Go_HandshakeContext ctx tc, Select sel]
                  @ (case Deadline ctx of Some d \<Rightarrow> [Conn_SetDeadline tc zero_Time] | None \<Rightarrow> [])"
  shows "Net_DialTLSContext rt n w ctx network address =
           (case (case sel of case_ctx_Done e \<Rightarrow> Some e | case_errch r \<Rightarrow> r) of
              None \<Rightarrow> (Return (Some tc, None), w1\<lparr>state := s3, trace := trace w1 @ evs\<rparr>)
            | Some e \<Rightarrow>
                (Return (None, Some e), w1\<lparr>state := s3, trace := trace w1 @ evs @ [Conn_Close c]\<rparr>))"
proof -
  define w2 where "w2 = emit (Stack_DefaultCertPool pool) (w1\<lparr>state := s2\<rparr>)"
  have sel2: "select_ctx_Done_errch rt (state w2) ctx tc = (sel, s3)"
    using sel by (simp add: w2_def emit_def)
  have hs: "Net_tlsHandshake rt w2 ctx tc =
              ((case sel of case_ctx_Done e \<Rightarrow> Some e | case_errch r \<Rightarrow> r),
               w1\<lparr>state := s3, trace := trace w1 @ evs\<rparr>)"
    unfolding Net_tlsHandshake_run [OF sel2] by (simp add: w2_def emit_def evs)
  show ?thesis
    using split dial pool hs
    by (simp add: Net_DialTLSContext_def Let_def w2_def tc [symmetric] emit_def split: option.splits)
qed


lemma Net_DialTLSContext_never_both:
  "Net_DialTLSContext rt n w ctx network address = (Return (conn, err), w')
     \<Longrightarrow> conn = None \<or> err = None"
  by (auto simp: Net_DialTLSContext_def Let_def split: prod.splits option.splits)

text \<open>
  C5. When the inner dial returned a connection and the \<^verbatim>\<open>select\<close> of the
  handshake ends with the context done or with a handshake error, the call returns a
  nil connection with that error, and the last thing it did is to close the connection
  the dial returned; no call of \<^verbatim>\<open>DialTLSContext\<close> whatever returns a
  connection together with an error.
\<close>

theorem Net_DialTLSContext_closes_on_failure:
  assumes split: "net_SplitHostPort rt address = (hostname, port, None)"
      and dial: "Net_DialContext rt n w ctx network address = ((Some c, None), w1)"
      and pool: "DefaultCertPool (Stack n) (state w1) = (pool, s2)"
      and tc: "tc = tls_Client (Some c) (Some \<lparr>RootCAs = pool, NextProtos = [], ServerName = hostname\<rparr>)"
      and sel: "select_ctx_Done_errch rt s2 ctx tc = (sel, s3)"
      and fails: "sel = case_ctx_Done e \<or> sel = case_errch (Some e)"
  shows "(\<exists>w' evs. Net_DialTLSContext rt n w ctx network address = (Return (None, Some e), w')
            \<and> trace w' = trace w1 @ evs @ [Conn_Close c]
            \<and> Conn_Close c \<notin> set evs)
       \<and> (\<forall>w0 ctx0 network0 address0 conn0 err0 w0'.
            Net_DialTLSContext rt n w0 ctx0 network0 address0 = (Return (conn0, err0), w0')
              \<longrightarrow> conn0 = None \<or> err0 = None)"
proof
  define evs where "evs = Stack_DefaultCertPool pool
                  # (case Deadline ctx of Some d \<Rightarrow> [Conn_SetDeadline tc d] | None \<Rightarrow> [])
                  @ [Go_HandshakeContext ctx tc, Select sel]
                  @ (case Deadline ctx of Some d \<Rightarrow> [Conn_SetDeadline tc zero_Time] | None \<Rightarrow> [])"
  have herr: "(case sel of case_ctx_Done e \<Rightarrow> Some e | case_errch r \<Rightarrow> r) = Some e"
    using fails by auto
  have "Net_DialTLSContext rt n w ctx network address =
          (Return (None, Some e), w1\<lparr>state := s3, trace := trace w1 @ evs @ [Conn_Close c]\<rparr>)"
    unfolding Net_DialTLSContext_run [OF split dial pool tc sel evs_def] herr by simp
  moreover have "Conn_Close c \<notin> set evs"
    by (auto simp: evs_def split: option.splits)
  ultimately show "\<exists>w' evs. Net_DialTLSContext rt n w ctx network address = (Return (None, Some e), w')
            \<and> trace w' = trace w1 @ evs @ [Conn_Close c] \<and> Conn_Close c \<notin> set evs"
    by (intro exI [of _ "w1\<lparr>state := s3, trace := trace w1 @ evs @ [Conn_Close c]\<rparr>"] exI [of _ evs]) simp
next
  show "\<forall>w0 ctx0 network0 address0 conn0 err0 w0'.
            Net_DialTLSContext rt n w0 ctx0 network0 address0 = (Return (conn0, err0), w0')
              \<longrightarrow> conn0 = None \<or> err0 = None"
    using Net_DialTLSContext_never_both by blast
qed

text \<open>
  C6. After the inner dial, the TLS client is made with the pool that the stack's
  \<^verbatim>\<open>DefaultCertPool\<close> returned as root CAs and with the host of the address, as
  split before any resolution, as server name; when the context has a deadline, that
  deadline is set on the TLS connection; the handshake is started in its goroutine; and
  the call returns what the \<^verbatim>\<open>select\<close> received: the context's error when the
  context was done first, the handshake's result when the handshake ended first.
\<close>

theorem Net_DialTLSContext_handshake:
  assumes split: "net_SplitHostPort rt address = (hostname, port, None)"
      and dial: "Net_DialContext rt n w ctx network address = ((Some c, None), w1)"
      and pool: "DefaultCertPool (Stack n) (state w1) = (pool, s2)"
      and tc: "tc = tls_Client (Some c) (Some \<lparr>RootCAs = pool, NextProtos = [], ServerName = hostname\<rparr>)"
      and sel: "select_ctx_Done_errch rt s2 ctx tc = (sel, s3)"
  shows "\<exists>w' rest.
           Net_DialTLSContext rt n w ctx network address =
             ((case sel of
                 case_ctx_Done e \<Rightarrow> Return (None, Some e)
               | case_errch (Some e) \<Rightarrow> Return (None, Some e)
               | case_errch None \<Rightarrow> Return (Some tc, None)), w')
         \<and> trace w' = trace w1
             @ Stack_DefaultCertPool pool
             # (case Deadline ctx of Some d \<Rightarrow> [Conn_SetDeadline tc d] | None \<Rightarrow> [])
             @ Go_HandshakeContext ctx tc # Select sel # rest"
proof -
  define evs where "evs = Stack_DefaultCertPool pool
                  # (case Deadline ctx of Some d \<Rightarrow> [Conn_SetDeadline tc d] | None \<Rightarrow> [])
                  @ [Go_HandshakeContext ctx tc, Select sel]
                  @ (case Deadline ctx of Some d \<Rightarrow> [Conn_SetDeadline tc zero_Time] | None \<Rightarrow> [])"
  note run = Net_DialTLSContext_run [OF split dial pool tc sel evs_def]
  show ?thesis
  proof (cases "case sel of case_ctx_Done e \<Rightarrow> Some e | case_errch r \<Rightarrow> r")
    case None
    then have s: "sel = case_errch None"
      by (cases sel) auto
    show ?thesis
      unfolding run None
      by (intro exI [of _ "w1\<lparr>state := s3, trace := trace w1 @ evs\<rparr>"]
                exI [of _ "case Deadline ctx of Some d \<Rightarrow> [Conn_SetDeadline tc zero_Time] | None \<Rightarrow> []"])
         (simp add: s evs_def)
  next
    case (Some e)
    then have s: "sel = case_ctx_Done e \<or> sel = case_errch (Some e)"
      by (cases sel) auto
    show ?thesis
      unfolding run Some
      by (intro exI [of _ "w1\<lparr>state := s3, trace := trace w1 @ evs @ [Conn_Close c]\<rparr>"]
                exI [of _ "(case Deadline ctx of Some d \<Rightarrow> [Conn_SetDeadline tc zero_Time] | None \<Rightarrow> [])
                            @ [Conn_Close c]"])
         (use s in \<open>auto simp: evs_def\<close>)
  qed
qed


lemma Net_DialContext_trace_grows:
  assumes "Net_DialContext rt n w ctx network address = (res, w1)"
  shows "\<exists>evs. trace w1 = trace w @ evs"
proof (cases "net_SplitHostPort rt address")
  case (fields domain port serr)
  show ?thesis
  proof (cases serr)
    case None
    obtain conn err where res: "res = (conn, err)"
      by (cases res)
    from Net_DialContext_run [OF fields [unfolded None] assms [unfolded res]]
    show ?thesis
      by (auto split: option.splits prod.splits)
  next
    case (Some e)
    then have "w1 = w"
      using assms fields by (simp add: Net_DialContext_def)
    then show ?thesis by simp
  qed
qed

text \<open>
  C10. A successful call made with a context that has a deadline ends with these four
  steps on the connection it returns: the deadline is set, the handshake runs, the
  handshake's success is received, the deadline is reset to the zero time.
\<close>

theorem Net_DialTLSContext_resets_deadline:
  assumes run: "Net_DialTLSContext rt n w ctx network address = (Return (Some tc, None), w')"
      and deadline: "Deadline ctx = Some d"
  shows "\<exists>evs. trace w' = trace w @ evs
           @ [Conn_SetDeadline tc d, Go_HandshakeContext ctx tc, Select (case_errch None),
              Conn_SetDeadline tc zero_Time]"
proof -
  obtain hostname port serr where split0: "net_SplitHostPort rt address = (hostname, port, serr)"
    by (metis prod.exhaust)
  obtain conn derr w1 where dial0: "Net_DialContext rt n w ctx network address = ((conn, derr), w1)"
    by (metis prod.exhaust)
  obtain pool s2 where pool: "DefaultCertPool (Stack n) (state w1) = (pool, s2)"
    by (metis prod.exhaust)
  define tc' where
    "tc' = tls_Client conn (Some \<lparr>RootCAs = pool, NextProtos = [], ServerName = hostname\<rparr>)"
  define w2 where "w2 = emit (Stack_DefaultCertPool pool) (w1\<lparr>state := s2\<rparr>)"
  obtain sel s3 where sel: "select_ctx_Done_errch rt (state w2) ctx tc' = (sel, s3)"
    by (metis prod.exhaust)
  have serr: "serr = None"
    using run split0 by (cases serr) (simp_all add: Net_DialTLSContext_def)
  have derr: "derr = None"
    using run split0 serr dial0 by (cases derr) (simp_all add: Net_DialTLSContext_def)
  note hs = Net_tlsHandshake_run [OF sel]
  have out: "tc = tc' \<and> sel = case_errch None
               \<and> w' = w2\<lparr>state := s3,
                      trace := trace w2
                        @ [Conn_SetDeadline tc' d, Go_HandshakeContext ctx tc', Select sel,
                           Conn_SetDeadline tc' zero_Time]\<rparr>"
    using run split0 serr dial0 derr pool hs deadline
    by (cases sel)
       (auto simp: Net_DialTLSContext_def Let_def w2_def [symmetric] tc'_def [symmetric]
             split: option.splits)
  obtain evs where evs: "trace w1 = trace w @ evs"
    using Net_DialContext_trace_grows [OF dial0] by blast
  have "trace w' = trace w @ (evs @ [Stack_DefaultCertPool pool])
           @ [Conn_SetDeadline tc d, Go_HandshakeContext ctx tc, Select (case_errch None),
              Conn_SetDeadline tc zero_Time]"
    using out evs by (simp add: w2_def emit_def)
  then show ?thesis by blast
qed


section \<open>The examples, run\<close>

lemmas example_defs =
  example_runtime_def example_SplitHostPort_def example_ParseIP_def example_JoinHostPort_def
  example_net_def example_stack_def example_world_def example_ctx_def

lemma example_split:
  "net_SplitHostPort (example_runtime sel) ''ndt0.local:443'' = (''ndt0.local'', ''443'', None)"
  by (simp add: example_defs)

lemma example_dial:
  "Net_DialContext (example_runtime sel) example_net example_world example_ctx ''tcp'' ''ndt0.local:443''
     = ((Some (StackConn 2), None), example_dialled)"
  by (simp add: Net_DialContext_def Net_LookupHost_def example_defs example_dialled_def
        emit_def new_ptr_def ECONNREFUSED_def Let_def)

lemma example_pool:
  "DefaultCertPool (Stack example_net) (state example_dialled) = (Some 1, 4)"
  by (simp add: example_net_def example_stack_def example_dialled_def)

lemma example_select:
  "select_ctx_Done_errch (example_runtime sel) 4 example_ctx example_tls_conn = (sel, 5)"
  by (simp add: example_runtime_def)

lemma example_tls_dial:
  "fst (Net_DialTLSContext (example_runtime (case_errch None)) example_net
          example_world example_ctx ''tcp'' ''ndt0.local:443'')
     = Return (Some example_tls_conn, None)"
  unfolding Net_DialTLSContext_run
    [OF example_split example_dial example_pool example_tls_conn_def example_select refl]
  by simp

theorem Net_DialTLSContext_closes_on_failure_witness:
  "fst (Net_DialTLSContext (example_runtime (case_ctx_Done context_DeadlineExceeded)) example_net
          example_world example_ctx ''tcp'' ''ndt0.local:443'')
     = Return (None, Some context_DeadlineExceeded)
   \<and> last (trace (snd (Net_DialTLSContext (example_runtime (case_ctx_Done context_DeadlineExceeded))
                          example_net example_world example_ctx ''tcp'' ''ndt0.local:443'')))
     = Conn_Close (StackConn 2)"
proof -
  let ?sel = "case_ctx_Done context_DeadlineExceeded"
  have fails: "?sel = case_ctx_Done context_DeadlineExceeded
                 \<or> ?sel = case_errch (Some context_DeadlineExceeded)"
    by simp
  from Net_DialTLSContext_closes_on_failure
    [OF example_split example_dial example_pool example_tls_conn_def example_select fails]
  obtain w' where
    "Net_DialTLSContext (example_runtime ?sel) example_net example_world example_ctx
       ''tcp'' ''ndt0.local:443''
       = (Return (None, Some context_DeadlineExceeded), w')"
    and "\<exists>pre. trace w' = pre @ [Conn_Close (StackConn 2)]"
    by auto
  then show ?thesis by auto
qed

theorem Net_DialTLSContext_handshake_witness:
  "fst (Net_DialTLSContext (example_runtime (case_errch None)) example_net
          example_world example_ctx ''tcp'' ''ndt0.local:443'')
     = Return (Some (tls_Client (Some (StackConn 2))
                 (Some \<lparr>RootCAs = Some 1, NextProtos = [], ServerName = ''ndt0.local''\<rparr>)), None)"
proof -
  from Net_DialTLSContext_handshake
    [OF example_split example_dial example_pool example_tls_conn_def
        example_select [of "case_errch None"]]
  obtain w' where
    "Net_DialTLSContext (example_runtime (case_errch None)) example_net example_world example_ctx
       ''tcp'' ''ndt0.local:443''
       = (Return (Some example_tls_conn, None), w')"
    by auto
  then show ?thesis by (simp add: example_tls_conn_def)
qed

theorem Net_DialTLSContext_resets_deadline_witness:
  "last (trace (snd (Net_DialTLSContext (example_runtime (case_errch None)) example_net
                       example_world example_ctx ''tcp'' ''ndt0.local:443'')))
     = Conn_SetDeadline example_tls_conn zero_Time"
proof -
  let ?call = "Net_DialTLSContext (example_runtime (case_errch None)) example_net
                 example_world example_ctx ''tcp'' ''ndt0.local:443''"
  have run: "?call = (Return (Some example_tls_conn, None), snd ?call)"
    using example_tls_dial by (metis prod.collapse)
  have deadline: "Deadline example_ctx = Some 4000000000"
    by (simp add: example_ctx_def)
  from Net_DialTLSContext_resets_deadline [OF run deadline]
  obtain evs where "trace (snd ?call) = trace example_world @ evs
           @ [Conn_SetDeadline example_tls_conn 4000000000,
              Go_HandshakeContext example_ctx example_tls_conn,
              Select (case_errch None), Conn_SetDeadline example_tls_conn zero_Time]"
    by blast
  then show ?thesis by simp
qed


end
